theory Spec2Isabelle
  imports Main "HOL-Library.Word"
begin

section \<open>The configuration loader, the mode override and the runtime store of conf/loader.go\<close>

text \<open>
  The file \<^verbatim>\<open>src/conf/loader.go\<close> is glue code: it drives storage backends, codecs and
  the apply hooks of other packages. Those packages are not part of the file, so every call
  into them is a parameter of the embedding. A storage backend acts on the outside world
  (files, remote endpoints, watchers): its operations are state transformers on a world
  type \<open>'w\<close>. A codec only translates between bytes and structured values: its
  operations are functions. Every \<^verbatim>\<open>if err != nil { return ... }\<close> of the source is a
  branch of the model.
\<close>

subsection \<open>Errors\<close>

text \<open>
  Go's \<^verbatim>\<open>error\<close> values. \<open>NotExist\<close> stands for the errors that \<^verbatim>\<open>os.IsNotExist\<close>
  accepts, \<open>Failure\<close> for every other root error, \<open>Wrapped\<close> for an error built by
  \<^verbatim>\<open>errors.Wrapf\<close> of github.com/pkg/errors around a cause.
\<close>

datatype error = NotExist string | Failure string | Wrapped error string

text \<open>\<^verbatim>\<open>errors.Wrapf(err, msg)\<close> on a non-nil error: the cause with the message attached.\<close>

definition Wrapf :: "error \<Rightarrow> string \<Rightarrow> error" where
  "Wrapf err msg = Wrapped err msg"



subsection \<open>Storage backends and codecs\<close>

type_synonym bytes = "8 word list"

type_synonym params = "string \<rightharpoonup> string"

text \<open>
  \<^verbatim>\<open>storage.IStorage\<close>. \<^verbatim>\<open>Load\<close> returns the Go pair \<^verbatim>\<open>(data, err)\<close> as it is: the
  bytes are there also when the error is not nil, and \<^verbatim>\<open>LoadRuntime\<close> goes on with them
  after a not-found error. \<open>None\<close> is the nil error.
\<close>

record ('w, 'ctx, 'n) IStorage =
  Load :: "'w \<Rightarrow> (bytes \<times> error option) \<times> 'w"
  Save :: "bytes \<Rightarrow> 'w \<Rightarrow> error option \<times> 'w"
  RegisterNotify :: "'ctx \<Rightarrow> 'n \<Rightarrow> 'w \<Rightarrow> error option \<times> 'w"
  Name :: string

text \<open>
  \<^verbatim>\<open>marshal.IMarshal\<close>, for a decoding target of type \<open>'t\<close>. \<^verbatim>\<open>UnMarshal(data, target)\<close>
  writes through the pointer \<^verbatim>\<open>target\<close>: the model takes the present value of the target
  and returns the new one. The byte count that \<^verbatim>\<open>UnMarshal\<close> also returns is dropped by
  every caller in the file. On an error each caller returns nil, so the target is not read
  again.
\<close>

record 't IMarshal =
  UnMarshal :: "bytes \<Rightarrow> 't \<Rightarrow> error + 't"
  Marshal :: "'t \<Rightarrow> error + bytes"

text \<open>The two registries: \<^verbatim>\<open>storage.Get\<close> and \<^verbatim>\<open>marshal.Get\<close>.\<close>

record ('w, 'ctx, 'n, 't) registries =
  storage_Get :: "string \<Rightarrow> params \<Rightarrow> 'w \<Rightarrow> (error + ('w, 'ctx, 'n) IStorage) \<times> 'w"
  marshal_Get :: "string \<Rightarrow> params \<Rightarrow> error + 't IMarshal"

subsection \<open>The configuration\<close>

text \<open>An entry of \<^verbatim>\<open>config.Include\<close>: the fields \<^verbatim>\<open>Typ\<close> and \<^verbatim>\<open>Params\<close> the loader reads.\<close>

record StorageRef =
  ref_Typ :: string
  ref_Params :: params

text \<open>
  \<^verbatim>\<open>model.Config\<close> is declared outside the file. The loader reads \<^verbatim>\<open>Include\<close> and
  writes \<^verbatim>\<open>Info.Name\<close>; everything else a codec decodes is the field \<open>Body\<close>, of a type
  the loader does not look into.
\<close>

record 'b Config =
  Info_Name :: string
  Include :: "StorageRef list"
  Body :: 'b

text \<open>
  \<^verbatim>\<open>new(model.Config)\<close>: the zero value. The zero value of the fields the loader does not
  read is the argument.
\<close>

definition new_Config :: "'b \<Rightarrow> 'b Config" where
  "new_Config zero = \<lparr>Info_Name = [], Include = [], Body = zero\<rparr>"

subsection \<open>LoadConfig\<close>

text \<open>
  The loop \<^verbatim>\<open>for _, v := range config.Include\<close> of \<^verbatim>\<open>LoadConfig\<close>, with the merge buffer
  as accumulator. The newline byte is 10.
\<close>

fun load_includes ::
  "('w, 'ctx, 'n, 't) registries \<Rightarrow> 'ctx \<Rightarrow> 'n \<Rightarrow> StorageRef list \<Rightarrow> bytes \<Rightarrow> 'w
     \<Rightarrow> (error + bytes) \<times> 'w" where
  "load_includes R ctx notify [] buffer w = (Inr buffer, w)"
| "load_includes R ctx notify (v # vs) buffer w =
     (case storage_Get R (ref_Typ v) (ref_Params v) w of
        (Inl err, w1) \<Rightarrow> (Inl err, w1)
      | (Inr c, w1) \<Rightarrow>
          (case Load c w1 of
             ((data, Some err), w2) \<Rightarrow> (Inl err, w2)
           | ((data, None), w2) \<Rightarrow>
               (case RegisterNotify c ctx notify w2 of
                  (Some err, w3) \<Rightarrow> (Inl err, w3)
                | (None, w3) \<Rightarrow> load_includes R ctx notify vs (buffer @ [10] @ data) w3)))"

text \<open>
  \<^verbatim>\<open>LoadConfig(ctx, typ, encode, params, notify)\<close>. The slice \<^verbatim>\<open>config.Include\<close> is
  evaluated once, when the loop starts, so the includes are those of the first decoding.
  The second \<^verbatim>\<open>UnMarshal\<close> decodes into the object the first one filled.
\<close>

definition LoadConfig ::
  "('w, 'ctx, 'n, 'b Config) registries \<Rightarrow> 'b \<Rightarrow> 'ctx \<Rightarrow> string \<Rightarrow> string \<Rightarrow> params \<Rightarrow> 'n \<Rightarrow> 'w
     \<Rightarrow> (error + 'b Config) \<times> 'w" where
  "LoadConfig R zero ctx typ encode params notify w =
     (case storage_Get R typ params w of
        (Inl err, w1) \<Rightarrow> (Inl err, w1)
      | (Inr s, w1) \<Rightarrow>
          (case Load s w1 of
             ((data, Some err), w2) \<Rightarrow> (Inl err, w2)
           | ((data, None), w2) \<Rightarrow>
               (case marshal_Get R encode params of
                  Inl err \<Rightarrow> (Inl err, w2)
                | Inr m \<Rightarrow>
                    (case UnMarshal m data (new_Config zero) of
                       Inl err \<Rightarrow> (Inl err, w2)
                     | Inr config \<Rightarrow>
                         (case RegisterNotify s ctx notify w2 of
                            (Some err, w3) \<Rightarrow> (Inl err, w3)
                          | (None, w3) \<Rightarrow>
                              (case load_includes R ctx notify (Include config) data w3 of
                                 (Inl err, w4) \<Rightarrow> (Inl err, w4)
                               | (Inr buffer, w4) \<Rightarrow>
                                   (case UnMarshal m buffer config of
                                      Inl err \<Rightarrow> (Inl err, w4)
                                    | Inr config' \<Rightarrow>
                                        (Inr (config'\<lparr>Info_Name := Name s\<rparr>), w4))))))))"

subsection \<open>The runtime store\<close>

text \<open>
  A value of type \<^verbatim>\<open>interface{}\<close>: nil, or a value of some dynamic type.
\<close>

datatype 'v iface = nil | val 'v

text \<open>
  \<^verbatim>\<open>sync.Mutex\<close>: free or held. The zero value \<^verbatim>\<open>sync.Mutex{}\<close> is a free mutex.
\<close>

datatype Mutex = Unlocked | Locked

text \<open>
  \<^verbatim>\<open>type runtime struct\<close>. The map is a non-nil Go map, as \<^verbatim>\<open>make\<close> creates it: a key
  that is absent is \<open>None\<close>, a key that holds the nil interface is \<open>Some nil\<close>. The
  embedded pointer \<^verbatim>\<open>*sync.Mutex\<close> is the state of the one mutex it points to.
\<close>

record ('w, 'ctx, 'n, 'v) runtime =
  rt_value :: "string \<rightharpoonup> 'v iface"
  rt_s :: "('w, 'ctx, 'n) IStorage"
  rt_m :: "(string \<rightharpoonup> 'v iface) IMarshal"
  rt_Mutex :: Mutex


text \<open>
  \<^verbatim>\<open>func (r *runtime) Set(key string, value interface{}) error\<close>. The receiver is a
  pointer: the model returns the error, the runtime after the call and the world after the
  call.
\<close>

definition runtime_Set ::
  "('w, 'ctx, 'n, 'v) runtime \<Rightarrow> string \<Rightarrow> 'v iface \<Rightarrow> 'w
     \<Rightarrow> error option \<times> ('w, 'ctx, 'n, 'v) runtime \<times> 'w" where
  "runtime_Set r key value w =
     (let r1 = r\<lparr>rt_value := (rt_value r)(key \<mapsto> value)\<rparr> in
      case Marshal (rt_m r1) (rt_value r1) of
        Inl err \<Rightarrow> (Some err, r1, w)
      | Inr data \<Rightarrow>
          (case Save (rt_s r1) data w of
             (Some err, w1) \<Rightarrow> (Some err, r1, w1)
           | (None, w1) \<Rightarrow> (None, r1, w1)))"


subsection \<open>Rules, handles and the mode override\<close>

text \<open>
  \<^verbatim>\<open>rule.Rule\<close> is declared outside the file; these are the three fields the file writes.
\<close>

record Rule =
  Typ :: string
  Proxy :: string
  Profile :: string

text \<open>
  A \<^verbatim>\<open>*rule.Rule\<close> is an address, and the rules live in a store, so that a rule shared
  by a closure and mutated at each call is the same object for every holder of the pointer.
  \<open>ext\<close> is the state of the other packages (among it the namespaces and their modes).
\<close>

type_synonym addr = nat

record 'x state =
  rules :: "addr \<Rightarrow> Rule"
  next_addr :: addr
  ext :: 'x

text \<open>\<^verbatim>\<open>&rule.Rule{...}\<close>: a new object at an address not in use.\<close>

definition alloc_Rule :: "Rule \<Rightarrow> 'x state \<Rightarrow> addr \<times> 'x state" where
  "alloc_Rule v st =
     (next_addr st, st\<lparr>rules := (rules st)(next_addr st := v), next_addr := Suc (next_addr st)\<rparr>)"

text \<open>\<^verbatim>\<open>rule.Handle\<close>: \<^verbatim>\<open>func(ctx context.Context, info rule.RequestInfo) *rule.Rule\<close>.\<close>

type_synonym ('ctx, 'info, 'x) Handle = "'ctx \<Rightarrow> 'info \<Rightarrow> 'x state \<Rightarrow> addr \<times> 'x state"

text \<open>
  Modelled from the spec: the constants \<^verbatim>\<open>constant.ModeDirect\<close> and
  \<^verbatim>\<open>constant.ModeGlobal\<close> are declared outside the file; the spec gives the rule types
  they are written to as DIRECT and GLOBAL.
\<close>

definition ModeDirect :: string where
  "ModeDirect = ''DIRECT''"

definition ModeGlobal :: string where
  "ModeGlobal = ''GLOBAL''"

text \<open>
  \<^verbatim>\<open>ruleModeHandle(r, next, _)\<close>. The first argument of the model is
  \<^verbatim>\<open>namespace.NamespaceWithContext(ctx).Mode()\<close>, a function of another package: the mode
  of the namespace the context belongs to, in the present state. The \<^verbatim>\<open>switch\<close> tries
  \<^verbatim>\<open>ModeDirect\<close> first.
\<close>

definition ruleModeHandle ::
  "('ctx \<Rightarrow> 'x state \<Rightarrow> string) \<Rightarrow> addr \<Rightarrow> ('ctx, 'info, 'x) Handle \<Rightarrow> 'd option
     \<Rightarrow> ('ctx, 'info, 'x) Handle" where
  "ruleModeHandle Mode r next dnsHandle =
     (\<lambda>ctx info st.
        if Mode ctx st = ModeDirect
        then (r, st\<lparr>rules := (rules st)(r := (rules st r)\<lparr>Typ := ModeDirect, Proxy := ''DIRECT''\<rparr>)\<rparr>)
        else if Mode ctx st = ModeGlobal
        then (r, st\<lparr>rules := (rules st)(r := (rules st r)\<lparr>Typ := ModeGlobal, Proxy := ''GLOBAL''\<rparr>)\<rparr>)
        else next ctx info st)"

text \<open>The rule that the result of a handle points to.\<close>

definition returned_Rule :: "addr \<times> 'x state \<Rightarrow> Rule" where
  "returned_Rule res = rules (snd res) (fst res)"

subsection \<open>ApplyConfig\<close>

text \<open>
  The functions of other packages that \<^verbatim>\<open>ApplyConfig\<close> calls, one field for each. An
  apply hook acts on the state of its package and may create rules, so it is a state
  transformer. \<open>server_Name\<close> and \<open>group_Name\<close> are the method \<^verbatim>\<open>Name()\<close> of a
  server and of a group, \<open>server_Direct\<close> is the constant \<^verbatim>\<open>server.Direct\<close>,
  \<open>NamespaceMode\<close> is \<^verbatim>\<open>namespace.NamespaceWithContext(ctx).Mode()\<close>.
\<close>

record ('x, 'ctx, 'info, 'b, 'rt, 'ans, 'd, 'dc, 'sv, 'g, 'f, 'sf, 'p) packages =
  NewRuntime :: "string \<Rightarrow> 'rt \<Rightarrow> 'rt"
  plugin_ApplyConfig :: "'b Config \<Rightarrow> 'rt \<Rightarrow> 'x state \<Rightarrow> error option \<times> 'x state"
  dns_ApplyConfig ::
    "'b Config \<Rightarrow> 'rt \<Rightarrow> ('ctx \<Rightarrow> string \<Rightarrow> 'ans option) \<Rightarrow> 'x state
       \<Rightarrow> (error + 'd \<times> 'dc) \<times> 'x state"
  server_ApplyConfig :: "'b Config \<Rightarrow> 'rt \<Rightarrow> 'd \<Rightarrow> 'x state \<Rightarrow> (error + 'sv list) \<times> 'x state"
  group_ApplyConfig ::
    "'ctx \<Rightarrow> 'b Config \<Rightarrow> 'rt \<Rightarrow> 'sv list \<Rightarrow> 'd \<Rightarrow> 'x state \<Rightarrow> (error + 'g list) \<times> 'x state"
  rule_ApplyConfig ::
    "'ctx \<Rightarrow> 'b Config \<Rightarrow> 'rt \<Rightarrow> bool \<Rightarrow> (string \<rightharpoonup> bool) \<Rightarrow> ('ctx, 'info, 'x) Handle \<Rightarrow> 'd
       \<Rightarrow> 'x state \<Rightarrow> (error + ('ctx, 'info, 'x) Handle) \<times> 'x state"
  filter_ApplyConfig :: "'ctx \<Rightarrow> 'rt \<Rightarrow> 'b Config \<Rightarrow> 'x state \<Rightarrow> (error + 'f) \<times> 'x state"
  stream_ApplyConfig :: "'ctx \<Rightarrow> 'rt \<Rightarrow> 'b Config \<Rightarrow> 'x state \<Rightarrow> (error + 'sf \<times> 'sf) \<times> 'x state"
  NewProfile ::
    "'b Config \<Rightarrow> 'd \<Rightarrow> 'dc \<Rightarrow> ('ctx, 'info, 'x) Handle \<Rightarrow> ('ctx, 'info, 'x) Handle \<Rightarrow> 'g list
       \<Rightarrow> 'sv list \<Rightarrow> 'f \<Rightarrow> 'sf \<Rightarrow> 'sf \<Rightarrow> 'x state \<Rightarrow> (error + 'p) \<times> 'x state"
  server_Name :: "'sv \<Rightarrow> string"
  group_Name :: "'g \<Rightarrow> string"
  server_Direct :: string
  NamespaceMode :: "'ctx \<Rightarrow> 'x state \<Rightarrow> string"

text \<open>
  Modelled from the spec: \<^verbatim>\<open>global.AddProfile\<close> and \<^verbatim>\<open>namespace.AddNamespace\<close> are
  functions of other packages. The spec has the profile registered globally by configuration
  name, and the name bound to (context, profile, runtime) in the namespace registry. The two
  registries are a state of their own, which only these two functions write.
\<close>

record ('ctx, 'p, 'rt) published =
  profiles :: "string \<rightharpoonup> 'p"
  namespaces :: "string \<rightharpoonup> 'ctx \<times> 'p \<times> 'rt"

definition AddProfile :: "string \<Rightarrow> 'p \<Rightarrow> ('ctx, 'p, 'rt) published \<Rightarrow> ('ctx, 'p, 'rt) published" where
  "AddProfile name profile reg = reg\<lparr>profiles := (profiles reg)(name \<mapsto> profile)\<rparr>"

definition AddNamespace ::
  "string \<Rightarrow> 'ctx \<Rightarrow> 'p \<Rightarrow> 'rt \<Rightarrow> ('ctx, 'p, 'rt) published \<Rightarrow> ('ctx, 'p, 'rt) published" where
  "AddNamespace name ctx profile runtime reg =
     reg\<lparr>namespaces := (namespaces reg)(name \<mapsto> (ctx, profile, runtime))\<rparr>"

text \<open>
  The two loops that fill \<^verbatim>\<open>proxyName\<close>: the names of the servers, then those of the
  groups.
\<close>

definition proxy_names :: "('sv \<Rightarrow> string) \<Rightarrow> ('g \<Rightarrow> string) \<Rightarrow> 'sv list \<Rightarrow> 'g list \<Rightarrow> (string \<rightharpoonup> bool)" where
  "proxy_names sname gname servers groups =
     fold (\<lambda>v m. m(gname v \<mapsto> True)) groups (fold (\<lambda>v m. m(sname v \<mapsto> True)) servers Map.empty)"

text \<open>
  \<^verbatim>\<open>ApplyConfig(ctx, config, runtime)\<close>, from the rule stage on: the default rule, the two
  rule chains with their mode override, the filter and stream stages, the profile and its
  publication.
\<close>

definition apply_rules ::
  "('x, 'ctx, 'info, 'b, 'rt, 'ans, 'd, 'dc, 'sv, 'g, 'f, 'sf, 'p) packages \<Rightarrow> 'ctx \<Rightarrow> 'b Config
     \<Rightarrow> string \<Rightarrow> 'rt \<Rightarrow> 'd \<Rightarrow> 'dc \<Rightarrow> 'sv list \<Rightarrow> 'g list \<Rightarrow> 'x state \<Rightarrow> ('ctx, 'p, 'rt) published
     \<Rightarrow> error option \<times> 'x state \<times> ('ctx, 'p, 'rt) published" where
  "apply_rules P ctx config name runtime dnsHandle dnsCache servers groups st reg =
     (let proxyName = proxy_names (server_Name P) (group_Name P) servers groups;
          (defaultRule, st1) = alloc_Rule \<lparr>Typ = ''FINAL'', Proxy = server_Direct P, Profile = []\<rparr> st
      in
      case rule_ApplyConfig P ctx config (NewRuntime P ''rule'' runtime) False proxyName
             (\<lambda>ctx info s. (defaultRule, s)) dnsHandle st1 of
        (Inl err, st2) \<Rightarrow> (Some (Wrapf err ''[rule.ApplyConfig] failed''), st2, reg)
      | (Inr ruleHandle0, st2) \<Rightarrow>
          (let (r, st3) = alloc_Rule \<lparr>Typ = [], Proxy = [], Profile = Info_Name config\<rparr> st2;
               ruleHandle = ruleModeHandle (NamespaceMode P) r ruleHandle0 (None :: 'd option)
           in
           case rule_ApplyConfig P ctx config (NewRuntime P ''rule'' runtime) True proxyName
                  (\<lambda>ctx info s. (defaultRule, s)) dnsHandle st3 of
             (Inl err, st4) \<Rightarrow> (Some (Wrapf err ''[rule.ApplyConfig] failed''), st4, reg)
           | (Inr udpRuleHandle0, st4) \<Rightarrow>
               (let (ur, st5) = alloc_Rule \<lparr>Typ = [], Proxy = [], Profile = Info_Name config\<rparr> st4;
                    udpRuleHandle =
                      ruleModeHandle (NamespaceMode P) ur udpRuleHandle0 (None :: 'd option)
                in
                case filter_ApplyConfig P ctx (NewRuntime P ''filter'' runtime) config st5 of
                  (Inl err, st6) \<Rightarrow> (Some (Wrapf err ''[filter.ApplyConfig] failed''), st6, reg)
                | (Inr filterHandle, st6) \<Rightarrow>
                    (case stream_ApplyConfig P ctx (NewRuntime P ''stream'' runtime) config st6 of
                       (Inl err, st7) \<Rightarrow>
                         (Some (Wrapf err ''[stream.ApplyConfig] failed''), st7, reg)
                     | (Inr (before, after), st7) \<Rightarrow>
                         (case NewProfile P config dnsHandle dnsCache ruleHandle udpRuleHandle
                                 groups servers filterHandle before after st7 of
                            (Inl err, st8) \<Rightarrow> (Some (Wrapf err ''create profile failed''), st8, reg)
                          | (Inr profile, st8) \<Rightarrow>
                              (None, st8,
                               AddNamespace name ctx profile runtime
                                 (AddProfile (Info_Name config) profile reg)))))))"

text \<open>
  \<^verbatim>\<open>ApplyConfig(ctx, config, runtime)\<close>: the plugin, DNS, server and group stages, then
  the rest. The Go variable \<^verbatim>\<open>runtime\<close> is reassigned to the runtime scoped by the
  namespace name before the first stage.
\<close>

definition ApplyConfig ::
  "('x, 'ctx, 'info, 'b, 'rt, 'ans, 'd, 'dc, 'sv, 'g, 'f, 'sf, 'p) packages \<Rightarrow> 'ctx \<Rightarrow> 'b Config
     \<Rightarrow> 'rt \<Rightarrow> 'x state \<Rightarrow> ('ctx, 'p, 'rt) published
     \<Rightarrow> error option \<times> 'x state \<times> ('ctx, 'p, 'rt) published" where
  "ApplyConfig P ctx config runtime0 st reg =
     (let name = ''default'';
          runtime = NewRuntime P name runtime0
      in
      case plugin_ApplyConfig P config runtime st of
        (Some err, st1) \<Rightarrow> (Some (Wrapf err ''[plugin.ApplyConfig] failed''), st1, reg)
      | (None, st1) \<Rightarrow>
          (case dns_ApplyConfig P config (NewRuntime P ''dns'' runtime) (\<lambda>ctx domain. None) st1 of
             (Inl err, st2) \<Rightarrow> (Some (Wrapf err ''[dns.ApplyConfig] failed''), st2, reg)
           | (Inr (dnsHandle, dnsCache), st2) \<Rightarrow>
               (case server_ApplyConfig P config (NewRuntime P ''server'' runtime) dnsHandle st2 of
                  (Inl err, st3) \<Rightarrow> (Some err, st3, reg)
                | (Inr servers, st3) \<Rightarrow>
                    (case group_ApplyConfig P ctx config (NewRuntime P ''group'' runtime) servers
                            dnsHandle st3 of
                       (Inl err, st4) \<Rightarrow> (Some err, st4, reg)
                     | (Inr groups, st4) \<Rightarrow>
                         apply_rules P ctx config name runtime dnsHandle dnsCache servers groups
                           st4 reg))))"

section \<open>The statements of the specification\<close>

text \<open>
  The merge buffer as the specification describes it: the primary bytes, then for each
  include a newline and the include's bytes.
\<close>

definition MergedBuffer :: "bytes \<Rightarrow> bytes list \<Rightarrow> bytes" where
  "MergedBuffer primary includes = primary @ concat (map (\<lambda>d. 10 # d) includes)"

text \<open>
  The bytes of the include sources in declaration order: each include is resolved, loaded
  and watched in turn, and the loaded bytes are collected.
\<close>

fun include_bytes ::
  "('w, 'ctx, 'n, 't) registries \<Rightarrow> 'ctx \<Rightarrow> 'n \<Rightarrow> StorageRef list \<Rightarrow> 'w
     \<Rightarrow> (error + bytes list) \<times> 'w" where
  "include_bytes R ctx notify [] w = (Inr [], w)"
| "include_bytes R ctx notify (v # vs) w =
     (case storage_Get R (ref_Typ v) (ref_Params v) w of
        (Inl err, w1) \<Rightarrow> (Inl err, w1)
      | (Inr c, w1) \<Rightarrow>
          (case Load c w1 of
             ((data, Some err), w2) \<Rightarrow> (Inl err, w2)
           | ((data, None), w2) \<Rightarrow>
               (case RegisterNotify c ctx notify w2 of
                  (Some err, w3) \<Rightarrow> (Inl err, w3)
                | (None, w3) \<Rightarrow>
                    (case include_bytes R ctx notify vs w3 of
                       (Inl err, w4) \<Rightarrow> (Inl err, w4)
                     | (Inr ds, w4) \<Rightarrow> (Inr (data # ds), w4)))))"

text \<open>
  Decoding the primary bytes into a fresh object and then the merge buffer into that same
  object.
\<close>

definition decode_merged :: "'t IMarshal \<Rightarrow> 't \<Rightarrow> bytes \<Rightarrow> bytes list \<Rightarrow> error + 't" where
  "decode_merged m fresh primary includes =
     (case UnMarshal m primary fresh of
        Inl err \<Rightarrow> Inl err
      | Inr c \<Rightarrow> UnMarshal m (MergedBuffer primary includes) c)"





section \<open>Fake backends\<close>

text \<open>
  Backends for running the definitions on concrete inputs. The world is the list of the
  calls made to the storage package, in order. The storage named \<^verbatim>\<open>a.conf\<close> holds the
  bytes of \<^verbatim>\<open>I1\<close>, \<^verbatim>\<open>b.conf\<close> holds \<^verbatim>\<open>2\<close>; \<^verbatim>\<open>missing.db\<close> and \<^verbatim>\<open>readonly.db\<close>
  do not exist, and the second one cannot be written.
\<close>

datatype event = CallGet string | CallLoad string | CallSave string bytes | CallRegisterNotify string

definition fake_content :: "string \<Rightarrow> bytes" where
  "fake_content name =
     (if name = ''a.conf'' then [73, 49] else if name = ''b.conf'' then [50] else [])"

definition fake_storage :: "string \<Rightarrow> (event list, unit, unit) IStorage" where
  "fake_storage name =
     \<lparr>Load = (\<lambda>w. if name = ''missing.db'' \<or> name = ''readonly.db''
                  then (([], Some (Wrapped (NotExist name) ''open'')), w @ [CallLoad name])
                  else ((fake_content name, None), w @ [CallLoad name])),
      Save = (\<lambda>data w. if name = ''readonly.db''
                       then (Some (Failure ''read-only''), w @ [CallSave name data])
                       else (None, w @ [CallSave name data])),
      RegisterNotify = (\<lambda>ctx notify w. (None, w @ [CallRegisterNotify name])),
      Name = name\<rparr>"

definition fake_registries :: "'t IMarshal \<Rightarrow> (event list, unit, unit, 't) registries" where
  "fake_registries codec =
     \<lparr>storage_Get = (\<lambda>typ params w.
        if typ = ''mem''
        then (case params ''name'' of
                None \<Rightarrow> (Inl (Failure ''no name''), w @ [CallGet typ])
              | Some n \<Rightarrow> (Inr (fake_storage n), w @ [CallGet typ]))
        else (Inl (Failure ''unknown storage''), w @ [CallGet typ])),
      marshal_Get = (\<lambda>encode params.
        if encode = ''toy'' then Inr codec else Inl (Failure ''unknown encoding''))\<rparr>"

text \<open>
  A codec for configurations: it keeps the bytes as the body, names the configuration
  \<^verbatim>\<open>decoded\<close>, and reads an include of \<^verbatim>\<open>b.conf\<close> when the first byte is \<^verbatim>\<open>I\<close>.
\<close>

definition toy_codec :: "bytes Config IMarshal" where
  "toy_codec =
     \<lparr>UnMarshal = (\<lambda>data c.
        if data = [] then Inl (Failure ''empty'')
        else Inr \<lparr>Info_Name = ''decoded'',
                  Include = (if hd data = 73
                             then [\<lparr>ref_Typ = ''mem'', ref_Params = [''name'' \<mapsto> ''b.conf'']\<rparr>]
                             else []),
                  Body = data\<rparr>),
      Marshal = (\<lambda>c. Inr (Body c))\<rparr>"

text \<open>
  A codec for the map of a runtime store: it cannot decode anything, and it cannot encode a
  map that has the key \<^verbatim>\<open>bad\<close>.
\<close>

definition toy_map_codec :: "(string \<rightharpoonup> nat iface) IMarshal" where
  "toy_map_codec =
     \<lparr>UnMarshal = (\<lambda>data m. Inl (Failure ''cannot decode'')),
      Marshal = (\<lambda>m. if m ''bad'' = None then Inr [1] else Inl (Failure ''cannot encode''))\<rparr>"

text \<open>A runtime store with an empty map over the fake storage of that name.\<close>

definition fake_runtime :: "string \<Rightarrow> Mutex \<Rightarrow> (event list, unit, unit, nat) runtime" where
  "fake_runtime name mu =
     \<lparr>rt_value = Map.empty, rt_s = fake_storage name, rt_m = toy_map_codec, rt_Mutex = mu\<rparr>"

text \<open>
  Packages in which the stage named by the argument fails with the error \<^verbatim>\<open>boom\<close>, and
  every other stage succeeds. The state of the other packages is the mode of the namespace.
\<close>

definition fake_packages ::
  "string \<Rightarrow> (string, unit, string, bytes, string, unit, nat, nat, string, string, nat, nat,
               string list) packages" where
  "fake_packages failing =
     \<lparr>NewRuntime = (\<lambda>name rt. rt @ ''/'' @ name),
      plugin_ApplyConfig = (\<lambda>config rt st.
        (if failing = ''plugin'' then Some (Failure ''boom'') else None, st)),
      dns_ApplyConfig = (\<lambda>config rt hook st.
        (if failing = ''dns'' then Inl (Failure ''boom'') else Inr (1, 2), st)),
      server_ApplyConfig = (\<lambda>config rt d st.
        (if failing = ''server'' then Inl (Failure ''boom'') else Inr [''s1''], st)),
      group_ApplyConfig = (\<lambda>ctx config rt servers d st.
        (if failing = ''group'' then Inl (Failure ''boom'') else Inr [''g1''], st)),
      rule_ApplyConfig = (\<lambda>ctx config rt udp names fallback d st.
        (if failing = ''rule'' \<and> \<not> udp \<or> failing = ''udp rule'' \<and> udp
         then Inl (Failure ''boom'') else Inr fallback, st)),
      filter_ApplyConfig = (\<lambda>ctx rt config st.
        (if failing = ''filter'' then Inl (Failure ''boom'') else Inr 3, st)),
      stream_ApplyConfig = (\<lambda>ctx rt config st.
        (if failing = ''stream'' then Inl (Failure ''boom'') else Inr (4, 5), st)),
      NewProfile = (\<lambda>config d dc h uh groups servers f before after st.
        (if failing = ''profile'' then Inl (Failure ''boom'') else Inr (groups @ servers), st)),
      server_Name = (\<lambda>v. v),
      group_Name = (\<lambda>v. v),
      server_Direct = ''DIRECT'',
      NamespaceMode = (\<lambda>ctx st. ext st)\<rparr>"

definition fake_state :: "string \<Rightarrow> string state" where
  "fake_state mode = \<lparr>rules = (\<lambda>a. \<lparr>Typ = [], Proxy = [], Profile = []\<rparr>), next_addr = 0, ext = mode\<rparr>"

definition fake_config :: "bytes Config" where
  "fake_config = \<lparr>Info_Name = ''a.conf'', Include = [], Body = []\<rparr>"

definition no_published :: "(unit, string list, string) published" where
  "no_published = \<lparr>profiles = Map.empty, namespaces = Map.empty\<rparr>"

section \<open>The loader\<close>

lemmas fake_simps = fake_content_def fake_storage_def fake_registries_def toy_codec_def

lemma MergedBuffer_Cons:
  "MergedBuffer (buffer @ 10 # d) ds = MergedBuffer buffer (d # ds)"
  by (simp add: MergedBuffer_def)

lemma load_includes_MergedBuffer:
  "load_includes R ctx notify vs buffer w =
     (case include_bytes R ctx notify vs w of
        (Inl err, w') \<Rightarrow> (Inl err, w')
      | (Inr ds, w') \<Rightarrow> (Inr (MergedBuffer buffer ds), w'))"
proof (induction vs arbitrary: buffer w)
  case Nil
  show ?case by (simp add: MergedBuffer_def)
next
  case (Cons v vs)
  show ?case
    by (simp add: Cons.IH MergedBuffer_Cons split: prod.splits sum.splits option.splits)
qed

lemma load_includes_success:
  assumes "load_includes R ctx notify vs buffer w = (Inr b, w')"
  shows "\<exists>ds. include_bytes R ctx notify vs w = (Inr ds, w') \<and> b = MergedBuffer buffer ds"
  using assms unfolding load_includes_MergedBuffer
  by (auto split: prod.splits sum.splits)

text \<open>
  C1, as amended. For every successful LoadConfig over a primary source and its include
  sources, the returned configuration is the result of decoding the primary bytes into a
  fresh Configuration and then decoding, into that same object, the primary bytes followed
  by, for each include in declaration order, a newline and that include's bytes; except
  that its Info.Name is the Name() of the primary storage.
\<close>

theorem LoadConfig_merged_decode:
  assumes "LoadConfig R zero ctx typ encode params notify w = (Inr cfg, w')"
  shows "\<exists>s w1 data w2 m c1 w3 datas c2.
           storage_Get R typ params w = (Inr s, w1) \<and>
           Load s w1 = ((data, None), w2) \<and>
           marshal_Get R encode params = Inr m \<and>
           UnMarshal m data (new_Config zero) = Inr c1 \<and>
           RegisterNotify s ctx notify w2 = (None, w3) \<and>
           include_bytes R ctx notify (Include c1) w3 = (Inr datas, w') \<and>
           decode_merged m (new_Config zero) data datas = Inr c2 \<and>
           cfg = c2\<lparr>Info_Name := Name s\<rparr>"
  using assms unfolding LoadConfig_def decode_merged_def
  by (auto split: prod.splits sum.splits option.splits dest!: load_includes_success)

theorem LoadConfig_merged_decode_witness:
  "LoadConfig (fake_registries toy_codec) [] () ''mem'' ''toy'' [''name'' \<mapsto> ''a.conf''] () [] =
     (Inr \<lparr>Info_Name = ''a.conf'',
           Include = [\<lparr>ref_Typ = ''mem'', ref_Params = [''name'' \<mapsto> ''b.conf'']\<rparr>],
           Body = [73, 49, 10, 50]\<rparr>,
      [CallGet ''mem'', CallLoad ''a.conf'', CallRegisterNotify ''a.conf'',
       CallGet ''mem'', CallLoad ''b.conf'', CallRegisterNotify ''b.conf'']) \<and>
   (\<exists>s w1 data w2 m c1 w3 datas c2.
      storage_Get (fake_registries toy_codec) ''mem'' [''name'' \<mapsto> ''a.conf''] [] = (Inr s, w1) \<and>
      Load s w1 = ((data, None), w2) \<and>
      marshal_Get (fake_registries toy_codec) ''toy'' [''name'' \<mapsto> ''a.conf''] = Inr m \<and>
      UnMarshal m data (new_Config []) = Inr c1 \<and>
      RegisterNotify s () () w2 = (None, w3) \<and>
      include_bytes (fake_registries toy_codec) () () (Include c1) w3 =
        (Inr datas,
         [CallGet ''mem'', CallLoad ''a.conf'', CallRegisterNotify ''a.conf'',
          CallGet ''mem'', CallLoad ''b.conf'', CallRegisterNotify ''b.conf'']) \<and>
      decode_merged m (new_Config []) data datas = Inr c2 \<and>
      \<lparr>Info_Name = ''a.conf'',
       Include = [\<lparr>ref_Typ = ''mem'', ref_Params = [''name'' \<mapsto> ''b.conf'']\<rparr>],
       Body = [73, 49, 10, 50]\<rparr> = c2\<lparr>Info_Name := Name s\<rparr>)"
proof -
  have run: "LoadConfig (fake_registries toy_codec) [] () ''mem'' ''toy'' [''name'' \<mapsto> ''a.conf''] () [] =
     (Inr \<lparr>Info_Name = ''a.conf'',
           Include = [\<lparr>ref_Typ = ''mem'', ref_Params = [''name'' \<mapsto> ''b.conf'']\<rparr>],
           Body = [73, 49, 10, 50]\<rparr>,
      [CallGet ''mem'', CallLoad ''a.conf'', CallRegisterNotify ''a.conf'',
       CallGet ''mem'', CallLoad ''b.conf'', CallRegisterNotify ''b.conf''])"
    by (simp add: LoadConfig_def fake_simps new_Config_def)
  show ?thesis
    using run LoadConfig_merged_decode [OF run] by simp
qed

text \<open>
  C1 as it is stated fails: the codec decodes the name \<^verbatim>\<open>decoded\<close>, and the configuration
  that LoadConfig returns is named \<^verbatim>\<open>a.conf\<close> after its storage.
\<close>

theorem LoadConfig_name_overrides_decoded_name:
  "LoadConfig (fake_registries toy_codec) [] () ''mem'' ''toy'' [''name'' \<mapsto> ''a.conf''] () [] =
     (Inr \<lparr>Info_Name = ''a.conf'',
           Include = [\<lparr>ref_Typ = ''mem'', ref_Params = [''name'' \<mapsto> ''b.conf'']\<rparr>],
           Body = [73, 49, 10, 50]\<rparr>,
      [CallGet ''mem'', CallLoad ''a.conf'', CallRegisterNotify ''a.conf'',
       CallGet ''mem'', CallLoad ''b.conf'', CallRegisterNotify ''b.conf'']) \<and>
   decode_merged toy_codec (new_Config []) [73, 49] ([50] # []) =
     Inr \<lparr>Info_Name = ''decoded'',
          Include = [\<lparr>ref_Typ = ''mem'', ref_Params = [''name'' \<mapsto> ''b.conf'']\<rparr>],
          Body = [73, 49, 10, 50]\<rparr> \<and>
   fst (LoadConfig (fake_registries toy_codec) [] () ''mem'' ''toy'' [''name'' \<mapsto> ''a.conf''] () [])
     \<noteq> decode_merged toy_codec (new_Config []) [73, 49] ([50] # [])"
  by (simp add: LoadConfig_def fake_simps new_Config_def decode_merged_def MergedBuffer_def)

text \<open>
  C9. For every successful LoadConfig, Info.Name of the returned configuration is the
  Name() of the primary storage instance: it is written into the result of the second
  decoding, whatever name that decoding produced.
\<close>

theorem LoadConfig_Info_Name:
  assumes "LoadConfig R zero ctx typ encode params notify w = (Inr cfg, w')"
  shows "\<exists>s w1 data w2 m c1 w3 buffer c2.
           storage_Get R typ params w = (Inr s, w1) \<and>
           Load s w1 = ((data, None), w2) \<and>
           marshal_Get R encode params = Inr m \<and>
           UnMarshal m data (new_Config zero) = Inr c1 \<and>
           RegisterNotify s ctx notify w2 = (None, w3) \<and>
           load_includes R ctx notify (Include c1) data w3 = (Inr buffer, w') \<and>
           UnMarshal m buffer c1 = Inr c2 \<and>
           cfg = c2\<lparr>Info_Name := Name s\<rparr> \<and>
           Info_Name cfg = Name s"
  using assms unfolding LoadConfig_def
  by (auto split: prod.splits sum.splits option.splits)






theorem LoadConfig_Info_Name_witness:
  "LoadConfig (fake_registries toy_codec) [] () ''mem'' ''toy'' [''name'' \<mapsto> ''b.conf''] () [] =
     (Inr \<lparr>Info_Name = ''b.conf'', Include = [], Body = [50]\<rparr>,
      [CallGet ''mem'', CallLoad ''b.conf'', CallRegisterNotify ''b.conf'']) \<and>
   decode_merged toy_codec (new_Config []) [50] [] =
     Inr \<lparr>Info_Name = ''decoded'', Include = [], Body = [50]\<rparr> \<and>
   (\<exists>s w1 data w2 m c1 w3 buffer c2.
      storage_Get (fake_registries toy_codec) ''mem'' [''name'' \<mapsto> ''b.conf''] [] = (Inr s, w1) \<and>
      Load s w1 = ((data, None), w2) \<and>
      marshal_Get (fake_registries toy_codec) ''toy'' [''name'' \<mapsto> ''b.conf''] = Inr m \<and>
      UnMarshal m data (new_Config []) = Inr c1 \<and>
      RegisterNotify s () () w2 = (None, w3) \<and>
      load_includes (fake_registries toy_codec) () () (Include c1) data w3 =
        (Inr buffer, [CallGet ''mem'', CallLoad ''b.conf'', CallRegisterNotify ''b.conf'']) \<and>
      UnMarshal m buffer c1 = Inr c2 \<and>
      \<lparr>Info_Name = ''b.conf'', Include = [], Body = [50]\<rparr> = c2\<lparr>Info_Name := Name s\<rparr> \<and>
      Info_Name \<lparr>Info_Name = ''b.conf'', Include = [], Body = [50 :: 8 word]\<rparr> = Name s)"
proof -
  have run: "LoadConfig (fake_registries toy_codec) [] () ''mem'' ''toy'' [''name'' \<mapsto> ''b.conf''] () [] =
     (Inr \<lparr>Info_Name = ''b.conf'', Include = [], Body = [50]\<rparr>,
      [CallGet ''mem'', CallLoad ''b.conf'', CallRegisterNotify ''b.conf''])"
    by (simp add: LoadConfig_def fake_simps new_Config_def)
  have dec: "decode_merged toy_codec (new_Config []) [50] [] =
     Inr \<lparr>Info_Name = ''decoded'', Include = [], Body = [50]\<rparr>"
    by (simp add: decode_merged_def MergedBuffer_def toy_codec_def new_Config_def)
  show ?thesis
    using run dec LoadConfig_Info_Name [OF run] by simp
qed

section \<open>The runtime store\<close>



text \<open>
  C10. If encoding the map fails during Set, Save is not invoked: Set returns the encode
  error with the map already changed, and the world of the storage is the one before the
  call.
\<close>

theorem runtime_Set_encode_failure:
  assumes "Marshal (rt_m r) ((rt_value r)(k \<mapsto> v)) = Inl err"
  shows "runtime_Set r k v w = (Some err, r\<lparr>rt_value := (rt_value r)(k \<mapsto> v)\<rparr>, w)"
  using assms by (simp add: runtime_Set_def)

theorem runtime_Set_encode_failure_witness:
  "Marshal (rt_m (fake_runtime ''state.db'' Unlocked))
     ((rt_value (fake_runtime ''state.db'' Unlocked))(''bad'' \<mapsto> val 3)) =
     Inl (Failure ''cannot encode'') \<and>
   runtime_Set (fake_runtime ''state.db'' Unlocked) ''bad'' (val 3) [CallLoad ''state.db''] =
     (Some (Failure ''cannot encode''),
      (fake_runtime ''state.db'' Unlocked)
        \<lparr>rt_value := (rt_value (fake_runtime ''state.db'' Unlocked))(''bad'' \<mapsto> val 3)\<rparr>,
      [CallLoad ''state.db''])"
proof -
  have h: "Marshal (rt_m (fake_runtime ''state.db'' Unlocked))
     ((rt_value (fake_runtime ''state.db'' Unlocked))(''bad'' \<mapsto> val 3)) =
     Inl (Failure ''cannot encode'')"
    by (simp add: fake_runtime_def toy_map_codec_def)
  show ?thesis
    using h runtime_Set_encode_failure [OF h, of "[CallLoad ''state.db'']"] by blast
qed







section \<open>The mode override\<close>

text \<open>
  C2. The handle that ruleModeHandle builds returns the shared rule with type DIRECT and
  proxy DIRECT when the mode of the namespace is Direct, with type GLOBAL and proxy GLOBAL
  when it is Global, and otherwise the result of the wrapped chain, unchanged. In the first
  two cases the result and the state do not depend on the wrapped chain: it is not invoked.
\<close>

theorem ruleModeHandle_mode_override:
  "(Mode ctx st = ModeDirect \<longrightarrow>
      ruleModeHandle Mode r next dnsHandle ctx info st =
        (r, st\<lparr>rules := (rules st)(r := (rules st r)\<lparr>Typ := ''DIRECT'', Proxy := ''DIRECT''\<rparr>)\<rparr>) \<and>
      Typ (returned_Rule (ruleModeHandle Mode r next dnsHandle ctx info st)) = ''DIRECT'' \<and>
      Proxy (returned_Rule (ruleModeHandle Mode r next dnsHandle ctx info st)) = ''DIRECT'') \<and>
   (Mode ctx st = ModeGlobal \<longrightarrow>
      ruleModeHandle Mode r next dnsHandle ctx info st =
        (r, st\<lparr>rules := (rules st)(r := (rules st r)\<lparr>Typ := ''GLOBAL'', Proxy := ''GLOBAL''\<rparr>)\<rparr>) \<and>
      Typ (returned_Rule (ruleModeHandle Mode r next dnsHandle ctx info st)) = ''GLOBAL'' \<and>
      Proxy (returned_Rule (ruleModeHandle Mode r next dnsHandle ctx info st)) = ''GLOBAL'') \<and>
   (Mode ctx st \<noteq> ModeDirect \<and> Mode ctx st \<noteq> ModeGlobal \<longrightarrow>
      ruleModeHandle Mode r next dnsHandle ctx info st = next ctx info st)"
  by (simp add: ruleModeHandle_def ModeDirect_def ModeGlobal_def returned_Rule_def)

theorem ruleModeHandle_mode_override_witness:
  "ext (fake_state ''DIRECT'') = ModeDirect \<and>
   (ruleModeHandle (\<lambda>ctx st. ext st) 1 (\<lambda>ctx info st. (0, st\<lparr>next_addr := 7\<rparr>)) (None :: nat option) ()
       ''example.com'' (fake_state ''DIRECT'') =
     (1, (fake_state ''DIRECT'')
           \<lparr>rules := (rules (fake_state ''DIRECT''))
                       (1 := (rules (fake_state ''DIRECT'') 1)\<lparr>Typ := ''DIRECT'', Proxy := ''DIRECT''\<rparr>)\<rparr>) \<and>
    Typ (returned_Rule
           (ruleModeHandle (\<lambda>ctx st. ext st) 1 (\<lambda>ctx info st. (0, st\<lparr>next_addr := 7\<rparr>))
              (None :: nat option) () ''example.com'' (fake_state ''DIRECT''))) = ''DIRECT'' \<and>
    Proxy (returned_Rule
           (ruleModeHandle (\<lambda>ctx st. ext st) 1 (\<lambda>ctx info st. (0, st\<lparr>next_addr := 7\<rparr>))
              (None :: nat option) () ''example.com'' (fake_state ''DIRECT''))) = ''DIRECT'') \<and>
   ext (fake_state ''GLOBAL'') = ModeGlobal \<and>
   (ruleModeHandle (\<lambda>ctx st. ext st) 1 (\<lambda>ctx info st. (0, st\<lparr>next_addr := 7\<rparr>)) (None :: nat option) ()
       ''example.com'' (fake_state ''GLOBAL'') =
     (1, (fake_state ''GLOBAL'')
           \<lparr>rules := (rules (fake_state ''GLOBAL''))
                       (1 := (rules (fake_state ''GLOBAL'') 1)\<lparr>Typ := ''GLOBAL'', Proxy := ''GLOBAL''\<rparr>)\<rparr>) \<and>
    Typ (returned_Rule
           (ruleModeHandle (\<lambda>ctx st. ext st) 1 (\<lambda>ctx info st. (0, st\<lparr>next_addr := 7\<rparr>))
              (None :: nat option) () ''example.com'' (fake_state ''GLOBAL''))) = ''GLOBAL'' \<and>
    Proxy (returned_Rule
           (ruleModeHandle (\<lambda>ctx st. ext st) 1 (\<lambda>ctx info st. (0, st\<lparr>next_addr := 7\<rparr>))
              (None :: nat option) () ''example.com'' (fake_state ''GLOBAL''))) = ''GLOBAL'') \<and>
   (ext (fake_state ''RULE'') \<noteq> ModeDirect \<and> ext (fake_state ''RULE'') \<noteq> ModeGlobal) \<and>
   ruleModeHandle (\<lambda>ctx st. ext st) 1 (\<lambda>ctx info st. (0, st\<lparr>next_addr := 7\<rparr>)) (None :: nat option) ()
       ''example.com'' (fake_state ''RULE'') =
     (0, (fake_state ''RULE'')\<lparr>next_addr := 7\<rparr>)"
proof (intro conjI)
  show d: "ext (fake_state ''DIRECT'') = ModeDirect"
    by (simp add: fake_state_def ModeDirect_def)
  show g: "ext (fake_state ''GLOBAL'') = ModeGlobal"
    by (simp add: fake_state_def ModeGlobal_def)
  show r1: "ext (fake_state ''RULE'') \<noteq> ModeDirect"
    by (simp add: fake_state_def ModeDirect_def)
  show r2: "ext (fake_state ''RULE'') \<noteq> ModeGlobal"
    by (simp add: fake_state_def ModeGlobal_def)
  note direct = ruleModeHandle_mode_override
      [where Mode = "\<lambda>ctx st. ext st" and st = "fake_state ''DIRECT''", THEN conjunct1, THEN mp, OF d]
  note global = ruleModeHandle_mode_override
      [where Mode = "\<lambda>ctx st. ext st" and st = "fake_state ''GLOBAL''", THEN conjunct2,
       THEN conjunct1, THEN mp, OF g]
  note rule = ruleModeHandle_mode_override
      [where Mode = "\<lambda>ctx st. ext st" and st = "fake_state ''RULE''", THEN conjunct2,
       THEN conjunct2, THEN mp, OF conjI [OF r1 r2]]
  show "ruleModeHandle (\<lambda>ctx st. ext st) 1 (\<lambda>ctx info st. (0, st\<lparr>next_addr := 7\<rparr>)) (None :: nat option) ()
       ''example.com'' (fake_state ''DIRECT'') =
     (1, (fake_state ''DIRECT'')
           \<lparr>rules := (rules (fake_state ''DIRECT''))
                       (1 := (rules (fake_state ''DIRECT'') 1)\<lparr>Typ := ''DIRECT'', Proxy := ''DIRECT''\<rparr>)\<rparr>)"
    by (rule direct [THEN conjunct1])
  show "Typ (returned_Rule
           (ruleModeHandle (\<lambda>ctx st. ext st) 1 (\<lambda>ctx info st. (0, st\<lparr>next_addr := 7\<rparr>))
              (None :: nat option) () ''example.com'' (fake_state ''DIRECT''))) = ''DIRECT''"
    by (rule direct [THEN conjunct2, THEN conjunct1])
  show "Proxy (returned_Rule
           (ruleModeHandle (\<lambda>ctx st. ext st) 1 (\<lambda>ctx info st. (0, st\<lparr>next_addr := 7\<rparr>))
              (None :: nat option) () ''example.com'' (fake_state ''DIRECT''))) = ''DIRECT''"
    by (rule direct [THEN conjunct2, THEN conjunct2])
  show "ruleModeHandle (\<lambda>ctx st. ext st) 1 (\<lambda>ctx info st. (0, st\<lparr>next_addr := 7\<rparr>)) (None :: nat option) ()
       ''example.com'' (fake_state ''GLOBAL'') =
     (1, (fake_state ''GLOBAL'')
           \<lparr>rules := (rules (fake_state ''GLOBAL''))
                       (1 := (rules (fake_state ''GLOBAL'') 1)\<lparr>Typ := ''GLOBAL'', Proxy := ''GLOBAL''\<rparr>)\<rparr>)"
    by (rule global [THEN conjunct1])
  show "Typ (returned_Rule
           (ruleModeHandle (\<lambda>ctx st. ext st) 1 (\<lambda>ctx info st. (0, st\<lparr>next_addr := 7\<rparr>))
              (None :: nat option) () ''example.com'' (fake_state ''GLOBAL''))) = ''GLOBAL''"
    by (rule global [THEN conjunct2, THEN conjunct1])
  show "Proxy (returned_Rule
           (ruleModeHandle (\<lambda>ctx st. ext st) 1 (\<lambda>ctx info st. (0, st\<lparr>next_addr := 7\<rparr>))
              (None :: nat option) () ''example.com'' (fake_state ''GLOBAL''))) = ''GLOBAL''"
    by (rule global [THEN conjunct2, THEN conjunct2])
  show "ruleModeHandle (\<lambda>ctx st. ext st) 1 (\<lambda>ctx info st. (0, st\<lparr>next_addr := 7\<rparr>)) (None :: nat option) ()
       ''example.com'' (fake_state ''RULE'') =
     (0, (fake_state ''RULE'')\<lparr>next_addr := 7\<rparr>)"
    by (rule rule)
qed

section \<open>ApplyConfig\<close>

lemma apply_rules_error:
  "apply_rules P ctx config name runtime dnsHandle dnsCache servers groups st reg = (Some e, st', reg')
     \<Longrightarrow> reg' = reg"
  by (auto simp: apply_rules_def Let_def split: prod.splits sum.splits)

lemma apply_rules_success:
  assumes "apply_rules P ctx config name runtime (dnsHandle :: 'd) dnsCache servers groups st reg =
             (None, st', reg')"
  shows "\<exists>d st1 h st2 r st3 uh st4 ur st5 filterHandle st6 before after st7 profile.
           alloc_Rule \<lparr>Typ = ''FINAL'', Proxy = server_Direct P, Profile = []\<rparr> st = (d, st1) \<and>
           rule_ApplyConfig P ctx config (NewRuntime P ''rule'' runtime) False
             (proxy_names (server_Name P) (group_Name P) servers groups)
             (\<lambda>ctx info s. (d, s)) dnsHandle st1 = (Inr h, st2) \<and>
           alloc_Rule \<lparr>Typ = [], Proxy = [], Profile = Info_Name config\<rparr> st2 = (r, st3) \<and>
           rule_ApplyConfig P ctx config (NewRuntime P ''rule'' runtime) True
             (proxy_names (server_Name P) (group_Name P) servers groups)
             (\<lambda>ctx info s. (d, s)) dnsHandle st3 = (Inr uh, st4) \<and>
           alloc_Rule \<lparr>Typ = [], Proxy = [], Profile = Info_Name config\<rparr> st4 = (ur, st5) \<and>
           filter_ApplyConfig P ctx (NewRuntime P ''filter'' runtime) config st5 =
             (Inr filterHandle, st6) \<and>
           stream_ApplyConfig P ctx (NewRuntime P ''stream'' runtime) config st6 =
             (Inr (before, after), st7) \<and>
           NewProfile P config dnsHandle dnsCache
             (ruleModeHandle (NamespaceMode P) r h (None :: 'd option))
             (ruleModeHandle (NamespaceMode P) ur uh (None :: 'd option))
             groups servers filterHandle before after st7 = (Inr profile, st') \<and>
           reg' = AddNamespace name ctx profile runtime (AddProfile (Info_Name config) profile reg)"
  using assms
  by (auto simp: apply_rules_def Let_def split: prod.splits sum.splits)


text \<open>
  C7. ApplyConfig never publishes a partial profile. When it returns an error the two
  registries are the ones before the call. When it returns nil every stage and the
  construction of the profile have succeeded, and the registries are the ones before the
  call with that profile added under the configuration name and bound to the namespace.
\<close>

theorem ApplyConfig_publishes_last:
  assumes "ApplyConfig P ctx config runtime0 st reg = (res, st', reg')"
  shows "(res \<noteq> None \<longrightarrow> reg' = reg) \<and>
         (res = None \<longrightarrow>
            (\<exists>st1 dnsHandle dnsCache st2 servers st3 groups st4 d st5 h st6 r st7 uh st8 ur st9
                filterHandle st10 before after st11 profile.
               plugin_ApplyConfig P config (NewRuntime P ''default'' runtime0) st = (None, st1) \<and>
               dns_ApplyConfig P config (NewRuntime P ''dns'' (NewRuntime P ''default'' runtime0))
                 (\<lambda>ctx domain. None) st1 = (Inr (dnsHandle :: 'd, dnsCache), st2) \<and>
               server_ApplyConfig P config
                 (NewRuntime P ''server'' (NewRuntime P ''default'' runtime0)) dnsHandle st2 =
                 (Inr servers, st3) \<and>
               group_ApplyConfig P ctx config
                 (NewRuntime P ''group'' (NewRuntime P ''default'' runtime0)) servers dnsHandle st3 =
                 (Inr groups, st4) \<and>
               alloc_Rule \<lparr>Typ = ''FINAL'', Proxy = server_Direct P, Profile = []\<rparr> st4 = (d, st5) \<and>
               rule_ApplyConfig P ctx config
                 (NewRuntime P ''rule'' (NewRuntime P ''default'' runtime0)) False
                 (proxy_names (server_Name P) (group_Name P) servers groups)
                 (\<lambda>ctx info s. (d, s)) dnsHandle st5 = (Inr h, st6) \<and>
               alloc_Rule \<lparr>Typ = [], Proxy = [], Profile = Info_Name config\<rparr> st6 = (r, st7) \<and>
               rule_ApplyConfig P ctx config
                 (NewRuntime P ''rule'' (NewRuntime P ''default'' runtime0)) True
                 (proxy_names (server_Name P) (group_Name P) servers groups)
                 (\<lambda>ctx info s. (d, s)) dnsHandle st7 = (Inr uh, st8) \<and>
               alloc_Rule \<lparr>Typ = [], Proxy = [], Profile = Info_Name config\<rparr> st8 = (ur, st9) \<and>
               filter_ApplyConfig P ctx
                 (NewRuntime P ''filter'' (NewRuntime P ''default'' runtime0)) config st9 =
                 (Inr filterHandle, st10) \<and>
               stream_ApplyConfig P ctx
                 (NewRuntime P ''stream'' (NewRuntime P ''default'' runtime0)) config st10 =
                 (Inr (before, after), st11) \<and>
               NewProfile P config dnsHandle dnsCache
                 (ruleModeHandle (NamespaceMode P) r h (None :: 'd option))
                 (ruleModeHandle (NamespaceMode P) ur uh (None :: 'd option))
                 groups servers filterHandle before after st11 = (Inr profile, st') \<and>
               reg' = AddNamespace ''default'' ctx profile (NewRuntime P ''default'' runtime0)
                        (AddProfile (Info_Name config) profile reg)))"
proof (cases res)
  case None
  show ?thesis
    using assms unfolding None ApplyConfig_def Let_def
    by (auto split: prod.splits sum.splits option.splits dest!: apply_rules_success)
next
  case (Some e)
  show ?thesis
    using assms unfolding Some ApplyConfig_def Let_def
    by (auto split: prod.splits sum.splits option.splits dest: apply_rules_error)
qed

lemmas fake_apply_simps =
  ApplyConfig_def apply_rules_def fake_packages_def fake_state_def fake_config_def
  no_published_def alloc_Rule_def Let_def Wrapf_def

theorem ApplyConfig_publishes_last_witness:
  "fst (ApplyConfig (fake_packages ''filter'') () fake_config ''rt'' (fake_state ''RULE'') no_published) =
     Some (Wrapped (Failure ''boom'') ''[filter.ApplyConfig] failed'') \<and>
   snd (snd (ApplyConfig (fake_packages ''filter'') () fake_config ''rt'' (fake_state ''RULE'')
               no_published)) = no_published \<and>
   fst (ApplyConfig (fake_packages []) () fake_config ''rt'' (fake_state ''RULE'') no_published) = None \<and>
   snd (snd (ApplyConfig (fake_packages []) () fake_config ''rt'' (fake_state ''RULE'') no_published)) =
     AddNamespace ''default'' () [''g1'', ''s1''] ''rt/default''
       (AddProfile ''a.conf'' [''g1'', ''s1''] no_published)"
proof -
  let ?F = "ApplyConfig (fake_packages ''filter'') () fake_config ''rt'' (fake_state ''RULE'') no_published"
  let ?S = "ApplyConfig (fake_packages []) () fake_config ''rt'' (fake_state ''RULE'') no_published"
  have f: "fst ?F = Some (Wrapped (Failure ''boom'') ''[filter.ApplyConfig] failed'')"
    by (simp add: fake_apply_simps)
  have s: "fst ?S = None"
    by (simp add: fake_apply_simps)
  have "?F = (fst ?F, fst (snd ?F), snd (snd ?F))" by simp
  from ApplyConfig_publishes_last [OF this] f
  have f': "snd (snd ?F) = no_published" by simp
  have "?S = (fst ?S, fst (snd ?S), snd (snd ?S))" by simp
  from ApplyConfig_publishes_last [OF this] s
  have s': "snd (snd ?S) = AddNamespace ''default'' () [''g1'', ''s1''] ''rt/default''
       (AddProfile ''a.conf'' [''g1'', ''s1''] no_published)"
    by (auto simp: fake_packages_def fake_config_def)
  show ?thesis using f f' s s' by blast
qed

text \<open>
  C6. A failing stage makes ApplyConfig return an error that carries the name of the stage.
  The source does so for the plugin and the DNS stage, and returns the error of the server
  stage and of the group stage as it is, with no stage name.
\<close>

theorem ApplyConfig_server_group_errors_unwrapped:
  "ApplyConfig (fake_packages ''server'') () fake_config ''rt'' (fake_state ''RULE'') no_published =
     (Some (Failure ''boom''), fake_state ''RULE'', no_published) \<and>
   ApplyConfig (fake_packages ''group'') () fake_config ''rt'' (fake_state ''RULE'') no_published =
     (Some (Failure ''boom''), fake_state ''RULE'', no_published) \<and>
   ApplyConfig (fake_packages ''plugin'') () fake_config ''rt'' (fake_state ''RULE'') no_published =
     (Some (Wrapped (Failure ''boom'') ''[plugin.ApplyConfig] failed''), fake_state ''RULE'',
      no_published) \<and>
   ApplyConfig (fake_packages ''dns'') () fake_config ''rt'' (fake_state ''RULE'') no_published =
     (Some (Wrapped (Failure ''boom'') ''[dns.ApplyConfig] failed''), fake_state ''RULE'',
      no_published)"
  by (simp add: ApplyConfig_def fake_packages_def Let_def Wrapf_def)

end
